theory Spec2Isabelle
  imports Main "HOL-Library.Word"
begin

unbundle bit_operations_syntax

section \<open>Opcode utilities of the EVM (packages/vm/src/evm/opcodes/util.ts)\<close>

text \<open>
  The utilities compute on arbitrary-precision integers (JavaScript \<open>bigint\<close> and the
  \<open>BN\<close> class), modelled as \<open>int\<close>, and on byte buffers, modelled as lists of
  8-bit words.  An exception thrown by the source is a value \<open>Inl e\<close> of the result.
\<close>

type_synonym byte = "8 word"
type_synonym Buffer = "byte list"

datatype error = RangeError | TypeError | AssertionError | OUT_OF_GAS

subsection \<open>Integer operators of the language\<close>

text \<open>
  \<open>a / b\<close> and \<open>a % b\<close> on \<open>bigint\<close> truncate towards zero, the remainder has the
  sign of the dividend, and a zero divisor throws a RangeError.
\<close>

definition bigint_div :: "int \<Rightarrow> int \<Rightarrow> error + int" where
  "bigint_div a b = (if b = 0 then Inl RangeError else Inr (sgn a * sgn b * (\<bar>a\<bar> div \<bar>b\<bar>)))"

definition bigint_rem :: "int \<Rightarrow> int \<Rightarrow> error + int" where
  "bigint_rem a b = (if b = 0 then Inl RangeError else Inr (sgn a * (\<bar>a\<bar> mod \<bar>b\<bar>)))"

text \<open>\<open>BigInt.asUintN(n, k)\<close>: the low \<open>n\<close> bits of \<open>k\<close>, read as unsigned.\<close>

definition asUintN :: "nat \<Rightarrow> int \<Rightarrow> int" where
  "asUintN n k = k mod 2 ^ n"

subsection \<open>Arithmetic helpers\<close>

text \<open>
  \<^verbatim>\<open>
  export function mod(a: bigint, b: bigint) {
    let r = a % b
    if (r < 0n) {
      r = b + r
    }
    return r
  }
  \<close>
\<close>

definition mod_util :: "int \<Rightarrow> int \<Rightarrow> error + int" where
  "mod_util a b =
     (case bigint_rem a b of
        Inl e \<Rightarrow> Inl e
      | Inr r \<Rightarrow> Inr (if r < 0 then b + r else r))"

text \<open>
  \<^verbatim>\<open>
  export function divCeil(a: bigint, b: bigint): bigint {
    const div = a / b
    const modulus = mod(a, b)
    // Fast case - exact division
    if (modulus === 0n) return div
    // Round up
    return div < 0n ? div - 1n : div + 1n
  }
  \<close>
\<close>

definition divCeil :: "int \<Rightarrow> int \<Rightarrow> error + int" where
  "divCeil a b =
     (case bigint_div a b of
        Inl e \<Rightarrow> Inl e
      | Inr d \<Rightarrow>
          (case mod_util a b of
             Inl e \<Rightarrow> Inl e
           | Inr modulus \<Rightarrow>
               if modulus = 0 then Inr d
               else Inr (if d < 0 then d - 1 else d + 1)))"

text \<open>
  \<^verbatim>\<open>
  export function fromTwos(a: bigint) {
    return BigInt.asUintN(256, ~(a - 1n))
  }
  export function toTwos(a: bigint) {
    return BigInt.asUintN(256, ~a) + 1n
  }
  \<close>
\<close>

definition fromTwos :: "int \<Rightarrow> int" where
  "fromTwos a = asUintN 256 (NOT (a - 1))"

definition toTwos :: "int \<Rightarrow> int" where
  "toTwos a = asUintN 256 (NOT a) + 1"

subsection \<open>Byte buffers\<close>

text \<open>
  \<open>Buffer.prototype.slice(start, end)\<close>: a negative index counts from the end, both
  indices are clamped to the buffer, and an end before the start gives the empty buffer.
\<close>

definition slice_index :: "int \<Rightarrow> int \<Rightarrow> int" where
  "slice_index n i = (if i < 0 then max (n + i) 0 else min i n)"

definition buffer_slice :: "Buffer \<Rightarrow> int \<Rightarrow> int \<Rightarrow> Buffer" where
  "buffer_slice buf start end' =
     (let n = int (length buf);
          s = slice_index n start;
          e = slice_index n end'
      in take (nat (e - s)) (drop (nat s) buf))"

text \<open>
  \<open>BN.prototype.toNumber\<close> converts to a JavaScript number and asserts that the value
  fits: it throws when the magnitude needs more than 53 bits.
\<close>

definition BN_toNumber :: "int \<Rightarrow> error + int" where
  "BN_toNumber k = (if \<bar>k\<bar> < 2 ^ 53 then Inr k else Inl AssertionError)"

text \<open>
  Modelled from the spec: \<open>setLengthLeft\<close> and \<open>setLengthRight\<close> of the package
  ethereumjs-util are imported by util.ts and are not among the sources.  The spec has
  them pad a buffer with zero bytes, on the left or on the right, until it has the
  requested length.  The spec is silent on a buffer that is already longer: there the
  model follows the utility package, which keeps the last (left variant) or the first
  (right variant) bytes.
\<close>

definition setLengthLeft :: "Buffer \<Rightarrow> nat \<Rightarrow> Buffer" where
  "setLengthLeft msg n =
     (if length msg < n then replicate (n - length msg) 0 @ msg
      else drop (length msg - n) msg)"

definition setLengthRight :: "Buffer \<Rightarrow> nat \<Rightarrow> Buffer" where
  "setLengthRight msg n =
     (if length msg < n then msg @ replicate (n - length msg) 0
      else take n msg)"

text \<open>
  \<^verbatim>\<open>
  export function setLengthLeftStorage(value: Buffer) {
    if (value.equals(Buffer.alloc(value.length, 0))) {
      // return the empty buffer (the value is zero)
      return Buffer.alloc(0)
    } else {
      return setLengthLeft(value, 32)
    }
  }
  \<close>
\<close>

definition setLengthLeftStorage :: "Buffer \<Rightarrow> Buffer" where
  "setLengthLeftStorage value =
     (if value = replicate (length value) 0 then []
      else setLengthLeft value 32)"

text \<open>
  \<^verbatim>\<open>
  export function getDataSlice(data: Buffer, offset: BN, length: BN): Buffer {
    const len = new BN(data.length)
    if (offset.gt(len)) {
      offset = len
    }
    let end = offset.add(length)
    if (end.gt(len)) {
      end = len
    }
    data = data.slice(offset.toNumber(), end.toNumber())
    // Right-pad with zeros to fill dataLength bytes
    data = setLengthRight(data, length.toNumber())
    return data
  }
  \<close>
  The three calls of \<open>toNumber\<close> can throw, in the order of the source.  The result
  buffer of \<open>setLengthRight\<close> is allocated with the requested size, which throws a
  RangeError on a negative size.
\<close>

definition getDataSlice :: "Buffer \<Rightarrow> int \<Rightarrow> int \<Rightarrow> error + Buffer" where
  "getDataSlice data offset length' =
     (let len = int (length data);
          offset = (if offset > len then len else offset);
          end' = offset + length';
          end' = (if end' > len then len else end')
      in case BN_toNumber offset of
           Inl e \<Rightarrow> Inl e
         | Inr start \<Rightarrow>
             (case BN_toNumber end' of
                Inl e \<Rightarrow> Inl e
              | Inr stop \<Rightarrow>
                  (let data = buffer_slice data start stop
                   in case BN_toNumber length' of
                        Inl e \<Rightarrow> Inl e
                      | Inr n \<Rightarrow>
                          if n < 0 then Inl RangeError
                          else Inr (setLengthRight data (nat n)))))"

subsection \<open>Execution context\<close>

text \<open>
  \<open>BN.prototype.div\<close> and \<open>divn\<close> divide the magnitudes and so truncate towards zero;
  \<open>div\<close> asserts that the divisor is not zero.
\<close>

definition BN_divn :: "int \<Rightarrow> int \<Rightarrow> int" where
  "BN_divn a n = sgn a * sgn n * (\<bar>a\<bar> div \<bar>n\<bar>)"

definition BN_div :: "int \<Rightarrow> int \<Rightarrow> error + int" where
  "BN_div a b = (if b = 0 then Inl AssertionError else Inr (BN_divn a b))"

text \<open>
  The protocol parameters (\<open>Common\<close> of the package @ethereumjs/common, read only):
  the fork test \<open>gteHardfork\<close> and the table \<open>param(topic, name)\<close>.
\<close>

record Common =
  gteHardfork :: "string \<Rightarrow> bool"
  param :: "string \<Rightarrow> string \<Rightarrow> int"

text \<open>
  The environment interface \<open>runState.eei\<close>: the gas ledger and the return data of
  the last call.
\<close>

record EEI =
  gasLeft :: int
  gasRefund :: int
  returnData :: Buffer

text \<open>
  The run state of a frame, as far as util.ts reads and writes it.  The memory is an
  object of a class that is not among the sources; its type is left open.
\<close>

record 'm RunState =
  eei :: EEI
  memoryWordCount :: int
  highestMemCost :: int
  memory :: 'm

text \<open>
  Modelled from the spec: the gas ledger of the environment interface is not among the
  sources.  The spec gives \<open>useGas(amount, reason)\<close>, which fails with OutOfGas if
  \<open>amount > gasLeft\<close> and deducts the amount otherwise, and \<open>refundGas(amount, reason)\<close>,
  modelled as adding the amount to the refund counter.
\<close>

definition useGas :: "int \<Rightarrow> 'm RunState \<Rightarrow> error + 'm RunState" where
  "useGas amount runState =
     (if amount > gasLeft (eei runState) then Inl OUT_OF_GAS
      else Inr (runState\<lparr>eei := (eei runState)\<lparr>gasLeft := gasLeft (eei runState) - amount\<rparr>\<rparr>))"

definition refundGas :: "int \<Rightarrow> 'm RunState \<Rightarrow> 'm RunState" where
  "refundGas amount runState =
     runState\<lparr>eei := (eei runState)\<lparr>gasRefund := gasRefund (eei runState) + amount\<rparr>\<rparr>"

text \<open>
  \<^verbatim>\<open>
  export function maxCallGas(gasLimit: BN, gasLeft: BN, runState: RunState, common: Common): BN {
    const isTangerineWhistleOrLater = common.gteHardfork('tangerineWhistle')
    if (isTangerineWhistleOrLater) {
      const gasAllowed = gasLeft.sub(gasLeft.divn(64))
      return gasLimit.gt(gasAllowed) ? gasAllowed : gasLimit
    } else {
      return gasLimit
    }
  }
  \<close>
\<close>

definition maxCallGas :: "int \<Rightarrow> int \<Rightarrow> 'm RunState \<Rightarrow> Common \<Rightarrow> int" where
  "maxCallGas gasLimit gasLeft' runState common =
     (let isTangerineWhistleOrLater = gteHardfork common ''tangerineWhistle''
      in if isTangerineWhistleOrLater then
           (let gasAllowed = gasLeft' - BN_divn gasLeft' 64
            in if gasLimit > gasAllowed then gasAllowed else gasLimit)
         else gasLimit)"

text \<open>
  \<^verbatim>\<open>
  export function subMemUsage(runState: RunState, offset: bigint, length: bigint, common: Common) {
    // YP (225): access with zero length will not extend the memory
    if (length === 0n) return
    const newMemoryWordCount = divCeil(offset + length, 32n)
    if (newMemoryWordCount >= runState.memoryWordCount) return
    const words = newMemoryWordCount
    const fee = new BN(common.param('gasPrices', 'memory'))
    const quadCoeff = new BN(common.param('gasPrices', 'quadCoeffDiv'))
    // words * 3 + words ^2 / 512
    const cost = words.mul(fee).add(words.mul(words).div(quadCoeff))
    if (cost.gt(runState.highestMemCost)) {
      runState.eei.useGas(cost.sub(runState.highestMemCost), 'subMemUsage')
      runState.highestMemCost = cost
    }
    runState.memoryWordCount = newMemoryWordCount
  }
  \<close>
  The function returns the run state it has updated, or the exception.  The word count
  of line 191 is a \<open>bigint\<close>, the result of \<open>divCeil\<close>, and a \<open>bigint\<close> has no
  method \<open>mul\<close>: the calls \<open>words.mul(...)\<close> of line 198 throw a TypeError.
\<close>

definition bigint_method_mul :: "int \<Rightarrow> int \<Rightarrow> error + int" where
  "bigint_method_mul a b = Inl TypeError"

definition subMemUsage :: "'m RunState \<Rightarrow> int \<Rightarrow> int \<Rightarrow> Common \<Rightarrow> error + 'm RunState" where
  "subMemUsage runState offset length' common =
     (if length' = 0 then Inr runState
      else
        case divCeil (offset + length') 32 of
          Inl e \<Rightarrow> Inl e
        | Inr newMemoryWordCount \<Rightarrow>
            if newMemoryWordCount \<ge> memoryWordCount runState then Inr runState
            else
              let words = newMemoryWordCount;
                  fee = param common ''gasPrices'' ''memory'';
                  quadCoeff = param common ''gasPrices'' ''quadCoeffDiv''
              in case bigint_method_mul words fee of
                   Inl e \<Rightarrow> Inl e
                 | Inr linear \<Rightarrow>
                     (case bigint_method_mul words words of
                        Inl e \<Rightarrow> Inl e
                      | Inr square \<Rightarrow>
                          (case BN_div square quadCoeff of
                             Inl e \<Rightarrow> Inl e
                           | Inr q \<Rightarrow>
                               let cost = linear + q
                               in case (if cost > highestMemCost runState then
                                          (case useGas (cost - highestMemCost runState) runState of
                                             Inl e \<Rightarrow> Inl e
                                           | Inr runState' \<Rightarrow>
                                               Inr (runState'\<lparr>highestMemCost := cost\<rparr>))
                                        else Inr runState) of
                                    Inl e \<Rightarrow> Inl e
                                  | Inr runState' \<Rightarrow>
                                      Inr (runState'\<lparr>memoryWordCount := newMemoryWordCount\<rparr>))))"

text \<open>A sequence of memory accesses \<open>(offset, length)\<close> charged one after the other on one frame.\<close>

fun subMemUsage_all :: "'m RunState \<Rightarrow> (int \<times> int) list \<Rightarrow> Common \<Rightarrow> error + 'm RunState" where
  "subMemUsage_all runState [] common = Inr runState"
| "subMemUsage_all runState ((offset, length') # calls) common =
     (case subMemUsage runState offset length' common of
        Inl e \<Rightarrow> Inl e
      | Inr runState' \<Rightarrow> subMemUsage_all runState' calls common)"

text \<open>
  \<^verbatim>\<open>
  export function writeCallOutput(runState: RunState, outOffset: BN, outLength: BN) {
    const returnData = runState.eei.getReturnData()
    if (returnData.length > 0) {
      const memOffset = outOffset.toNumber()
      let dataLength = outLength.toNumber()
      if (returnData.length < dataLength) {
        dataLength = returnData.length
      }
      const data = getDataSlice(returnData, new BN(0), new BN(dataLength))
      runState.memory.extend(memOffset, dataLength)
      runState.memory.write(memOffset, dataLength, data)
    }
  }
  \<close>
  The class of \<open>runState.memory\<close> is not among the sources, and the spec gives the
  signatures of \<open>extend(offset, length)\<close> and \<open>write(offset, length, data)\<close> only: the two
  methods are parameters of the model (\<open>mem_extend\<close> and \<open>mem_write\<close>).  The two calls
  of \<open>toNumber\<close> come before any use of the memory and can throw.
\<close>

record 'm Memory =
  mem_extend :: "'m \<Rightarrow> int \<Rightarrow> int \<Rightarrow> 'm"
  mem_write :: "'m \<Rightarrow> int \<Rightarrow> int \<Rightarrow> Buffer \<Rightarrow> 'm"

definition writeCallOutput ::
  "'m Memory \<Rightarrow> 'm RunState \<Rightarrow> int \<Rightarrow> int \<Rightarrow> error + 'm RunState" where
  "writeCallOutput Mem runState outOffset outLength =
     (let returnData' = returnData (eei runState)
      in if length returnData' > 0 then
           (case BN_toNumber outOffset of
              Inl e \<Rightarrow> Inl e
            | Inr memOffset \<Rightarrow>
                (case BN_toNumber outLength of
                   Inl e \<Rightarrow> Inl e
                 | Inr dataLength \<Rightarrow>
                     (let dataLength = (if int (length returnData') < dataLength
                                        then int (length returnData') else dataLength)
                      in case getDataSlice returnData' 0 dataLength of
                           Inl e \<Rightarrow> Inl e
                         | Inr data \<Rightarrow>
                             (let m = mem_extend Mem (memory runState) memOffset dataLength;
                                  m = mem_write Mem m memOffset dataLength data
                              in Inr (runState\<lparr>memory := m\<rparr>)))))
         else Inr runState)"

text \<open>
  \<^verbatim>\<open>
  export function updateSstoreGas(runState: RunState, currentStorage: Buffer, value: Buffer,
    keyBuf: Buffer, common: Common) {
    const sstoreResetCost = common.param('gasPrices', 'sstoreReset')
    if (
      (value.length === 0 && !currentStorage.length) ||
      (value.length !== 0 && currentStorage.length)
    ) {
      runState.eei.useGas(
        new BN(adjustSstoreGasEIP2929(runState, keyBuf, sstoreResetCost, 'reset', common)),
        'updateSstoreGas')
    } else if (value.length === 0 && currentStorage.length) {
      runState.eei.useGas(
        new BN(adjustSstoreGasEIP2929(runState, keyBuf, sstoreResetCost, 'reset', common)),
        'updateSstoreGas')
      runState.eei.refundGas(new BN(common.param('gasPrices', 'sstoreRefund')), 'updateSstoreGas')
    } else if (value.length !== 0 && !currentStorage.length) {
      runState.eei.useGas(new BN(common.param('gasPrices', 'sstoreSet')), 'updateSstoreGas')
    }
  }
  \<close>
  \<open>adjustSstoreGasEIP2929\<close> is imported from the module EIP2929, which is not among the
  sources: it is a parameter of the model, a function of the run state, the key, the
  default cost, the cost name and the parameters that returns the cost to charge.
\<close>

type_synonym 'm adjustSstoreGas = "'m RunState \<Rightarrow> Buffer \<Rightarrow> int \<Rightarrow> string \<Rightarrow> Common \<Rightarrow> int"

definition updateSstoreGas ::
  "'m adjustSstoreGas \<Rightarrow> 'm RunState \<Rightarrow> Buffer \<Rightarrow> Buffer \<Rightarrow> Buffer \<Rightarrow> Common \<Rightarrow> error + 'm RunState" where
  "updateSstoreGas adjustSstoreGasEIP2929 runState currentStorage value keyBuf common =
     (let sstoreResetCost = param common ''gasPrices'' ''sstoreReset''
      in if (length value = 0 \<and> \<not> length currentStorage \<noteq> 0) \<or>
            (length value \<noteq> 0 \<and> length currentStorage \<noteq> 0) then
           useGas (adjustSstoreGasEIP2929 runState keyBuf sstoreResetCost ''reset'' common) runState
         else if length value = 0 \<and> length currentStorage \<noteq> 0 then
           (case useGas (adjustSstoreGasEIP2929 runState keyBuf sstoreResetCost ''reset'' common)
                   runState of
              Inl e \<Rightarrow> Inl e
            | Inr runState' \<Rightarrow>
                Inr (refundGas (param common ''gasPrices'' ''sstoreRefund'') runState'))
         else if length value \<noteq> 0 \<and> \<not> length currentStorage \<noteq> 0 then
           useGas (param common ''gasPrices'' ''sstoreSet'') runState
         else Inr runState)"

text \<open>
  The outcome of charging \<open>cost\<close> and refunding \<open>refund\<close> on a run state, used to state
  what \<open>updateSstoreGas\<close> does: out of gas when the cost exceeds the gas left, otherwise
  the gas left reduced by the cost and the refund counter raised by the refund.
\<close>

definition charged :: "int \<Rightarrow> int \<Rightarrow> 'm RunState \<Rightarrow> error + 'm RunState" where
  "charged cost refund runState =
     (if cost > gasLeft (eei runState) then Inl OUT_OF_GAS
      else Inr (runState\<lparr>eei := (eei runState)
                  \<lparr>gasLeft := gasLeft (eei runState) - cost,
                   gasRefund := gasRefund (eei runState) + refund\<rparr>\<rparr>))"

text \<open>
  The reset price that \<open>updateSstoreGas\<close> charges: the parameter \<open>sstoreReset\<close> as
  returned by \<open>adjustSstoreGasEIP2929\<close> under the cost name \<open>reset\<close>.
\<close>

definition resetCost :: "'m adjustSstoreGas \<Rightarrow> 'm RunState \<Rightarrow> Buffer \<Rightarrow> Common \<Rightarrow> int" where
  "resetCost adjustSstoreGasEIP2929 runState keyBuf common =
     adjustSstoreGasEIP2929 runState keyBuf (param common ''gasPrices'' ''sstoreReset'') ''reset'' common"

subsection \<open>Concrete inputs\<close>

text \<open>
  Protocol parameters with the memory prices 3 and 512 and the storage prices 20000
  (set), 5000 (reset) and 15000 (refund), with or without the fork tangerineWhistle.
\<close>

definition common_of :: "bool \<Rightarrow> Common" where
  "common_of tw = \<lparr>gteHardfork = (\<lambda>name. tw \<and> name = ''tangerineWhistle''),
     param = (\<lambda>topic name.
        if name = ''memory'' then 3
        else if name = ''quadCoeffDiv'' then 512
        else if name = ''sstoreSet'' then 20000
        else if name = ''sstoreReset'' then 5000
        else if name = ''sstoreRefund'' then 15000
        else 0)\<rparr>"

text \<open>A frame with the given gas, memory word count and highest memory cost.\<close>

definition frame :: "int \<Rightarrow> int \<Rightarrow> int \<Rightarrow> unit RunState" where
  "frame gas wordCount memCost =
     \<lparr>eei = \<lparr>gasLeft = gas, gasRefund = 0, returnData = []\<rparr>,
      memoryWordCount = wordCount, highestMemCost = memCost, memory = ()\<rparr>"

text \<open>An adjustment that returns the default cost, as when EIP-2929 is not active.\<close>

definition noAdjust :: "unit adjustSstoreGas" where
  "noAdjust runState keyBuf defaultCost costName common = defaultCost"

text \<open>A memory that records the calls made on it, and a frame holding given return data.\<close>

datatype mem_call = Extend int int | Write int int Buffer

definition callLog :: "mem_call list Memory" where
  "callLog = \<lparr>mem_extend = (\<lambda>m offset size'. m @ [Extend offset size']),
              mem_write = (\<lambda>m offset size' value. m @ [Write offset size' value])\<rparr>"

definition returned :: "Buffer \<Rightarrow> mem_call list RunState" where
  "returned out =
     \<lparr>eei = \<lparr>gasLeft = 0, gasRefund = 0, returnData = out\<rparr>,
      memoryWordCount = 0, highestMemCost = 0, memory = []\<rparr>"

section \<open>Properties\<close>

subsection \<open>Division and modulo\<close>

lemma bigint_div_nonneg:
  assumes "0 \<le> a" and "0 < b"
  shows "bigint_div a b = Inr (a div b)"
proof (cases "a = 0")
  case True
  then show ?thesis using assms by (simp add: bigint_div_def)
next
  case False
  with assms have "0 < a" by simp
  then show ?thesis using assms by (simp add: bigint_div_def)
qed

lemma mod_util_pos:
  assumes "0 < b"
  shows "mod_util a b = Inr (a mod b)"
proof (cases "0 \<le> a")
  case True
  then have "sgn a * (\<bar>a\<bar> mod \<bar>b\<bar>) = a mod b"
    using assms by (cases "a = 0") simp_all
  then have "bigint_rem a b = Inr (a mod b)"
    using assms by (simp add: bigint_rem_def)
  moreover have "\<not> a mod b < 0" using assms by (simp add: not_less)
  ultimately show ?thesis by (simp add: mod_util_def)
next
  case False
  then have neg: "a < 0" by simp
  let ?m = "(- a) mod b"
  have rem: "bigint_rem a b = Inr (- ?m)"
    using neg assms by (simp add: bigint_rem_def)
  have m0: "0 \<le> ?m" using assms by simp
  show ?thesis
  proof (cases "?m = 0")
    case True
    then have "a mod b = 0" by (simp add: mod_minus_eq dvd_eq_mod_eq_0 [symmetric])
    with True rem show ?thesis by (simp add: mod_util_def)
  next
    case False
    with m0 have "- ?m < 0" by simp
    moreover have "a mod b = b - ?m"
      using False zmod_zminus1_eq_if [of "- a" b] by (simp split: if_splits)
    ultimately show ?thesis using rem by (simp add: mod_util_def)
  qed
qed

text \<open>
  Claim C8.  For every non-negative \<open>a\<close> and positive \<open>b\<close>, \<open>divCeil a b\<close> returns a
  value \<open>d\<close> with \<open>d * b \<ge> a\<close> and \<open>(d - 1) * b < a\<close>.
\<close>

theorem divCeil_bounds:
  assumes "0 \<le> a" and "0 < b"
  shows "\<exists>d. divCeil a b = Inr d \<and> a \<le> d * b \<and> (d - 1) * b < a"
proof -
  have dv: "bigint_div a b = Inr (a div b)" by (rule bigint_div_nonneg [OF assms])
  have md: "mod_util a b = Inr (a mod b)" by (rule mod_util_pos [OF assms(2)])
  have q0: "0 \<le> a div b" using assms by (simp add: pos_imp_zdiv_nonneg_iff)
  have split: "a = a div b * b + a mod b" by simp
  show ?thesis
  proof (cases "a mod b = 0")
    case True
    then have "divCeil a b = Inr (a div b)" by (simp add: divCeil_def dv md)
    moreover from True split have eq: "a div b * b = a" by simp
    moreover have "(a div b - 1) * b < a"
      using eq assms(2) by (simp add: algebra_simps)
    ultimately show ?thesis by simp
  next
    case False
    then have res: "divCeil a b = Inr (a div b + 1)"
      using q0 by (simp add: divCeil_def dv md)
    have "0 < a mod b" using False assms(2) pos_mod_sign [of b a] by linarith
    then have lower: "a div b * b < a" using split by linarith
    have "a mod b < b" using assms(2) by simp
    moreover have "(a div b + 1) * b = a div b * b + b" by (simp add: algebra_simps)
    ultimately have upper: "a \<le> (a div b + 1) * b" using split by linarith
    from res lower upper show ?thesis by simp
  qed
qed

theorem divCeil_bounds_witness:
  "(0::int) \<le> 33 \<and> (0::int) < 32 \<and> divCeil 33 32 = Inr 2"
proof -
  obtain d where d: "divCeil 33 32 = Inr d" "33 \<le> d * 32" "(d - 1) * 32 < 33"
    using divCeil_bounds [of 33 32] by auto
  from d(2,3) have "d = 2" by presburger
  with d(1) show ?thesis by simp
qed

text \<open>
  Claim C5, as amended.  For every \<open>a\<close> and every \<open>b > 0\<close>, \<open>mod(a, b)\<close> is the floor
  modulo: it lies in \<open>[0, b)\<close> and is never negative.  For a negative \<open>b\<close> the result is
  zero or negative as long as \<open>a \<le> 0\<close>.  (For \<open>a > 0\<close> and \<open>b < 0\<close> the remainder of the
  truncating \<open>%\<close> is returned as it is, and is positive unless it is zero.)
\<close>

theorem mod_util_sign:
  assumes "b \<noteq> 0" and "0 < b \<or> a \<le> 0"
  shows "\<exists>r. mod_util a b = Inr r \<and> (r = 0 \<or> sgn r = sgn b) \<and>
             (0 < b \<longrightarrow> 0 \<le> r \<and> r < b \<and> r = a mod b)"
proof (cases "0 < b")
  case True
  have "mod_util a b = Inr (a mod b)" by (rule mod_util_pos [OF True])
  moreover have bounds: "0 \<le> a mod b" "a mod b < b" using True by simp_all
  moreover have "a mod b = 0 \<or> sgn (a mod b) = sgn b"
  proof (cases "a mod b = 0")
    case False
    with bounds(1) have "0 < a mod b" by linarith
    then show ?thesis using True by simp
  qed simp
  ultimately show ?thesis by simp
next
  case False
  with assms have b: "b < 0" and a: "a \<le> 0" by simp_all
  let ?m = "(- a) mod (- b)"
  have m: "0 \<le> ?m" using b by simp
  have rem: "bigint_rem a b = Inr (- ?m)"
    using a b by (cases "a = 0") (simp_all add: bigint_rem_def)
  show ?thesis
  proof (cases "?m = 0")
    case True
    with rem have "mod_util a b = Inr 0" by (simp add: mod_util_def)
    then show ?thesis using b by simp
  next
    case False
    with m have "- ?m < 0" by simp
    with rem have "mod_util a b = Inr (b - ?m)" by (simp add: mod_util_def)
    moreover have "b - ?m < 0" using b m by linarith
    ultimately show ?thesis using b by simp
  qed
qed

theorem mod_util_sign_witness:
  "(3::int) \<noteq> 0 \<and> (0::int) < 3 \<and> mod_util (- 5) 3 = Inr 1 \<and>
   (- 3::int) \<noteq> 0 \<and> (- 5::int) \<le> 0 \<and> mod_util (- 5) (- 3) = Inr (- 5) \<and>
   sgn (- 5::int) = sgn (- 3::int)"
proof -
  obtain r where r: "mod_util (- 5) 3 = Inr r" "r = (- 5) mod 3"
    using mod_util_sign [of 3 "- 5"] by auto
  obtain r' where r': "mod_util (- 5) (- 3) = Inr r'" "r' = 0 \<or> sgn r' = sgn (- 3::int)"
    using mod_util_sign [of "- 3" "- 5"] by auto
  have "mod_util (- 5) (- 3) = Inr (- 5)"
    by (simp add: mod_util_def bigint_rem_def)
  with r r' show ?thesis by simp
qed

text \<open>
  The claim as stated fails for a negative divisor: \<open>mod(5, -3)\<close> is \<open>2\<close>, which is
  neither zero nor of the sign of \<open>-3\<close>.
\<close>

theorem mod_util_sign_counterexample:
  "mod_util 5 (- 3) = Inr 2 \<and> (2::int) \<noteq> 0 \<and> sgn (2::int) \<noteq> sgn (- 3::int)"
  by (simp add: mod_util_def bigint_rem_def)

subsection \<open>Two's complement\<close>

lemma fromTwos_eq: "fromTwos a = (- a) mod 2 ^ 256"
  by (simp add: fromTwos_def asUintN_def not_int_def)

lemma toTwos_eq: "toTwos a = (- a - 1) mod 2 ^ 256 + 1"
  by (simp add: toTwos_def asUintN_def not_int_def)

text \<open>On every non-zero 256-bit pattern the two conversions are inverse.\<close>

lemma toTwos_fromTwos_pos:
  assumes "0 < x" and "x < 2 ^ 256"
  shows "toTwos (fromTwos x) = x"
proof -
  define M :: int where "M = 2 ^ 256"
  have x: "0 < x" "x < M" using assms by (simp_all add: M_def)
  have "(- x) mod M = M - x"
    using x zmod_zminus1_eq_if [of x M] by simp
  then have f: "fromTwos x = M - x" by (simp add: fromTwos_eq M_def)
  have "(- (M - x) - 1) mod M = (x - 1 + (- 1) * M) mod M" by (simp add: algebra_simps)
  also have "\<dots> = (x - 1) mod M" by (rule mod_mult_self1)
  also have "\<dots> = x - 1" using x by simp
  finally have "(- (M - x) - 1) mod M = x - 1" .
  then have "toTwos (M - x) = x" unfolding toTwos_eq M_def by simp
  with f show ?thesis by simp
qed

text \<open>
  Claim C4.  The round trip \<open>toTwos (fromTwos x) = x\<close> is claimed for every 256-bit
  pattern.  At \<open>x = 0\<close> the code returns \<open>2 ^ 256\<close>: \<open>toTwos\<close> adds one after the result
  has been cut to 256 bits.
\<close>

theorem toTwos_fromTwos_zero:
  "toTwos (fromTwos 0) = 2 ^ 256 \<and> toTwos (fromTwos 0) \<noteq> 0"
proof -
  define M :: int where "M = 2 ^ 256"
  have M: "0 < M" by (simp add: M_def)
  have "fromTwos 0 = 0" by (simp add: fromTwos_eq)
  moreover have "(- 1) mod M = M - 1" using M by (simp add: zmod_minus1)
  then have "toTwos 0 = M" unfolding toTwos_eq M_def by simp
  ultimately have "toTwos (fromTwos 0) = M" by simp
  then show ?thesis using M unfolding M_def by simp
qed

subsection \<open>Byte buffers\<close>

lemma buffer_slice_in_range:
  assumes "0 \<le> s" and "s \<le> e" and "e \<le> int (length buf)"
  shows "buffer_slice buf s e = take (nat (e - s)) (drop (nat s) buf)"
  using assms by (simp add: buffer_slice_def slice_index_def Let_def)

lemma BN_toNumber_fits: "0 \<le> k \<Longrightarrow> k < 2 ^ 53 \<Longrightarrow> BN_toNumber k = Inr k"
  by (simp add: BN_toNumber_def)

text \<open>
  For non-negative arguments within the 53 bits of a number, \<open>getDataSlice\<close> returns the
  window of the data that starts at the offset, filled up with zero bytes.
\<close>

lemma getDataSlice_eq:
  assumes "0 \<le> offset" and "0 \<le> length'" and "length' < 2 ^ 53"
    and "int (length data) < 2 ^ 53"
  shows "getDataSlice data offset length' =
           Inr (take (nat length') (drop (nat offset) data) @
                replicate (nat length' - length (take (nat length') (drop (nat offset) data))) 0)"
proof -
  let ?l = "int (length data)"
  let ?n = "nat length'"
  have n: "BN_toNumber length' = Inr length'"
    using assms(2,3) by (rule BN_toNumber_fits)
  have l: "BN_toNumber ?l = Inr ?l"
    using assms(4) by (simp add: BN_toNumber_fits)
  show ?thesis
  proof (cases "offset > ?l")
    case True
    have sl: "buffer_slice data ?l ?l = []"
      by (simp add: buffer_slice_in_range)
    have "getDataSlice data offset length' = Inr (setLengthRight [] ?n)"
      using True assms(2) by (auto simp add: getDataSlice_def Let_def sl n l BN_toNumber_fits)
    moreover have "drop (nat offset) data = []" using True by simp
    ultimately show ?thesis by (simp add: setLengthRight_def)
  next
    case False
    then have off: "offset \<le> ?l" by simp
    let ?e = "if offset + length' > ?l then ?l else offset + length'"
    have e: "offset \<le> ?e" "?e \<le> ?l" using off assms(2) by auto
    have o: "BN_toNumber offset = Inr offset"
      using assms(1,4) off by (simp add: BN_toNumber_fits)
    have "0 \<le> ?e" "?e < 2 ^ 53" using e assms(1,4) by linarith+
    then have en: "BN_toNumber ?e = Inr ?e" by (rule BN_toNumber_fits)
    have "buffer_slice data offset ?e = take (nat (?e - offset)) (drop (nat offset) data)"
      using assms(1) e by (rule buffer_slice_in_range)
    also have "\<dots> = take ?n (drop (nat offset) data)"
      using off assms(1,2) by (auto simp: take_all_iff min_def intro!: take_all)
    finally have sl: "buffer_slice data offset ?e = take ?n (drop (nat offset) data)" .
    have "getDataSlice data offset length' = Inr (setLengthRight (buffer_slice data offset ?e) ?n)"
      using False assms(2) en by (auto simp add: getDataSlice_def Let_def o n BN_toNumber_fits)
    with sl have "getDataSlice data offset length' =
        Inr (setLengthRight (take ?n (drop (nat offset) data)) ?n)"
      by simp
    then show ?thesis by (auto simp add: setLengthRight_def)
  qed
qed

text \<open>
  Claim C7, as amended.  For every buffer (of fewer than \<open>2^53\<close> bytes, as the length of
  a buffer is a number), every non-negative offset and every length with
  \<open>0 \<le> length < 2^53\<close>, \<open>getDataSlice\<close> returns exactly \<open>length\<close> bytes, and every byte
  of the result is zero when the offset is at or beyond the end of the data.
\<close>

theorem getDataSlice_length:
  assumes "0 \<le> offset" and "0 \<le> length'" and "length' < 2 ^ 53"
    and "int (length data) < 2 ^ 53"
  shows "\<exists>slice. getDataSlice data offset length' = Inr slice \<and>
           length slice = nat length' \<and>
           (int (length data) \<le> offset \<longrightarrow> slice = replicate (nat length') 0)"
  using assms by (simp add: getDataSlice_eq)

theorem getDataSlice_length_witness:
  "(0::int) \<le> 7 \<and> (0::int) \<le> 2 \<and> (2::int) < 2 ^ 53 \<and>
   int (length [1, 2, 3, 4 :: byte]) < 2 ^ 53 \<and> int (length [1, 2, 3, 4 :: byte]) \<le> 7 \<and>
   getDataSlice [1, 2, 3, 4] 7 2 = Inr [0, 0]"
  using getDataSlice_length [of 7 2 "[1, 2, 3, 4]"] by (auto simp add: numeral_2_eq_2)

text \<open>
  The claim as stated, for every non-negative length, fails from \<open>2^53\<close> on:
  \<open>length.toNumber()\<close> throws, and no bytes are returned.
\<close>

theorem getDataSlice_length_counterexample:
  "(0::int) \<le> 2 ^ 53 \<and> getDataSlice [1, 2, 3, 4] 0 (2 ^ 53) = Inl AssertionError"
  by (simp add: getDataSlice_def BN_toNumber_def buffer_slice_def slice_index_def Let_def)

lemma all_zero_iff: "(value = replicate (length value) (0::byte)) = (\<forall>b \<in> set value. b = 0)"
proof
  assume "value = replicate (length value) 0"
  then have "set value \<subseteq> {0}" by (metis set_replicate_conv_if empty_subsetI subset_refl)
  then show "\<forall>b \<in> set value. b = 0" by auto
next
  assume "\<forall>b \<in> set value. b = 0"
  then show "value = replicate (length value) 0"
    by (simp add: replicate_length_same)
qed

text \<open>
  Claim C9, as amended.  A value whose bytes are all zero (the empty value included)
  is stored as the empty buffer.  Any other value becomes exactly 32 bytes, and these
  are the value left-padded with zero bytes when the value has at most 32 bytes.
\<close>

theorem setLengthLeftStorage_cases:
  "((\<forall>b \<in> set value. b = 0) \<longrightarrow> setLengthLeftStorage value = []) \<and>
   (\<not> (\<forall>b \<in> set value. b = 0) \<longrightarrow>
      length (setLengthLeftStorage value) = 32 \<and>
      (length value \<le> 32 \<longrightarrow>
         setLengthLeftStorage value = replicate (32 - length value) 0 @ value))"
proof (cases "\<forall>b \<in> set value. b = 0")
  case True
  then have "value = replicate (length value) 0" by (simp add: all_zero_iff [symmetric])
  then have "setLengthLeftStorage value = []" by (simp add: setLengthLeftStorage_def)
  with True show ?thesis by simp
next
  case False
  then have "value \<noteq> replicate (length value) 0" by (simp add: all_zero_iff [symmetric])
  then have "setLengthLeftStorage value = setLengthLeft value 32"
    by (simp add: setLengthLeftStorage_def)
  with False show ?thesis by (auto simp: setLengthLeft_def)
qed

theorem setLengthLeftStorage_cases_witness:
  "set [0, 0 :: byte] = {0} \<and> setLengthLeftStorage [0, 0] = [] \<and>
   7 \<in> set [0, 7 :: byte] \<and> length [0, 7 :: byte] \<le> 32 \<and>
   length (setLengthLeftStorage [0, 7]) = 32 \<and>
   setLengthLeftStorage [0, 7] = replicate 30 0 @ [0, 7]"
  using setLengthLeftStorage_cases [of "[0, 0]"] setLengthLeftStorage_cases [of "[0, 7]"]
  by simp

text \<open>
  The claim as stated, for every byte sequence, fails on a value of more than 32 bytes,
  which no 32 bytes can hold with padding: the result is cut to 32 bytes.  Here a non-zero
  value of 33 bytes loses its only non-zero byte.
\<close>

theorem setLengthLeftStorage_long_counterexample:
  "length (1 # replicate 32 (0::byte)) = 33 \<and>
   setLengthLeftStorage (1 # replicate 32 0) = replicate 32 0"
proof -
  let ?v = "1 # replicate 32 (0::byte)"
  have "\<not> (\<forall>b \<in> set ?v. b = 0)" by simp
  then have "?v \<noteq> replicate (length ?v) 0" using all_zero_iff [of ?v] by blast
  then have "setLengthLeftStorage ?v = setLengthLeft ?v 32"
    by (simp only: setLengthLeftStorage_def if_False)
  then show ?thesis by (simp add: setLengthLeft_def)
qed


subsection \<open>Call gas\<close>

lemma BN_divn_nonneg: "0 \<le> a \<Longrightarrow> 0 < n \<Longrightarrow> BN_divn a n = a div n"
  by (cases "a = 0") (simp_all add: BN_divn_def)

text \<open>
  Claim C6.  Before the fork tangerineWhistle \<open>maxCallGas\<close> returns the requested gas
  limit unchanged, whatever the gas left.  From the fork on it returns the smaller of
  the requested limit and \<open>gasLeft - floor(gasLeft / 64)\<close>, for a gas amount
  \<open>gasLeft \<ge> 0\<close>.
\<close>

theorem maxCallGas_forwarding:
  "(\<not> gteHardfork common ''tangerineWhistle'' \<longrightarrow>
      maxCallGas gasLimit gasLeft' runState common = gasLimit) \<and>
   (gteHardfork common ''tangerineWhistle'' \<and> 0 \<le> gasLeft' \<longrightarrow>
      maxCallGas gasLimit gasLeft' runState common = min gasLimit (gasLeft' - gasLeft' div 64))"
  by (auto simp: maxCallGas_def Let_def BN_divn_nonneg min_def)

text \<open>
  The scenarios of the spec: 5000 requested of 1000 before the fork, 990000 and 900000
  requested of 1000000 after it.
\<close>

theorem maxCallGas_forwarding_witness:
  "\<not> gteHardfork (common_of False) ''tangerineWhistle'' \<and>
   maxCallGas 5000 1000 (frame 1000 0 0) (common_of False) = 5000 \<and>
   gteHardfork (common_of True) ''tangerineWhistle'' \<and> (0::int) \<le> 1000000 \<and>
   maxCallGas 990000 1000000 (frame 1000000 0 0) (common_of True) = 984375 \<and>
   maxCallGas 900000 1000000 (frame 1000000 0 0) (common_of True) = 900000"
  using maxCallGas_forwarding [of "common_of False" 5000 1000 "frame 1000 0 0"]
        maxCallGas_forwarding [of "common_of True" 990000 1000000 "frame 1000000 0 0"]
        maxCallGas_forwarding [of "common_of True" 900000 1000000 "frame 1000000 0 0"]
  by (simp add: common_of_def)

subsection \<open>Storage gas\<close>

text \<open>
  Claim C3, as amended.  \<open>updateSstoreGas\<close> decides by the emptiness of the current
  and the new value: (empty, empty) charges the reset price and refunds nothing;
  (empty, non-empty) charges \<open>sstoreSet\<close>; (non-empty, empty) charges the reset price and
  refunds \<open>sstoreRefund\<close>; (non-empty, non-empty) charges the reset price and refunds
  nothing, whether or not the two values are equal.
\<close>

theorem updateSstoreGas_cases:
  "(currentStorage = [] \<and> value = [] \<longrightarrow>
      updateSstoreGas adjust runState currentStorage value keyBuf common =
        charged (resetCost adjust runState keyBuf common) 0 runState) \<and>
   (currentStorage = [] \<and> value \<noteq> [] \<longrightarrow>
      updateSstoreGas adjust runState currentStorage value keyBuf common =
        charged (param common ''gasPrices'' ''sstoreSet'') 0 runState) \<and>
   (currentStorage \<noteq> [] \<and> value = [] \<longrightarrow>
      updateSstoreGas adjust runState currentStorage value keyBuf common =
        charged (resetCost adjust runState keyBuf common)
          (param common ''gasPrices'' ''sstoreRefund'') runState) \<and>
   (currentStorage \<noteq> [] \<and> value \<noteq> [] \<longrightarrow>
      updateSstoreGas adjust runState currentStorage value keyBuf common =
        charged (resetCost adjust runState keyBuf common) 0 runState)"
  by (simp add: updateSstoreGas_def Let_def useGas_def charged_def refundGas_def resetCost_def)

theorem updateSstoreGas_cases_witness:
  "updateSstoreGas noAdjust (frame 30000 0 0) [] [] [1] (common_of True)
     = Inr (frame 25000 0 0) \<and>
   updateSstoreGas noAdjust (frame 30000 0 0) [] [7] [1] (common_of True)
     = Inr (frame 10000 0 0) \<and>
   updateSstoreGas noAdjust (frame 30000 0 0) [7] [] [1] (common_of True)
     = Inr ((frame 25000 0 0)\<lparr>eei := \<lparr>gasLeft = 25000, gasRefund = 15000, returnData = []\<rparr>\<rparr>) \<and>
   updateSstoreGas noAdjust (frame 30000 0 0) [7] [7] [1] (common_of True)
     = Inr (frame 25000 0 0) \<and>
   updateSstoreGas noAdjust (frame 100 0 0) [7] [7] [1] (common_of True) = Inl OUT_OF_GAS"
  using updateSstoreGas_cases [of "[]" "[]" noAdjust "frame 30000 0 0" "[1]" "common_of True"]
        updateSstoreGas_cases [of "[]" "[7]" noAdjust "frame 30000 0 0" "[1]" "common_of True"]
        updateSstoreGas_cases [of "[7]" "[]" noAdjust "frame 30000 0 0" "[1]" "common_of True"]
        updateSstoreGas_cases [of "[7]" "[7]" noAdjust "frame 30000 0 0" "[1]" "common_of True"]
        updateSstoreGas_cases [of "[7]" "[7]" noAdjust "frame 100 0 0" "[1]" "common_of True"]
  by (simp add: charged_def resetCost_def noAdjust_def frame_def common_of_def)

text \<open>
  The claim as stated has (empty, empty) charge nothing.  The first branch of the code
  takes that case together with (non-empty, non-empty) and charges the reset price.
\<close>

theorem updateSstoreGas_empty_counterexample:
  "updateSstoreGas noAdjust (frame 30000 0 0) [] [] [1] (common_of True) = Inr (frame 25000 0 0) \<and>
   frame 25000 0 0 \<noteq> frame 30000 0 0"
  by (simp add: updateSstoreGas_def useGas_def noAdjust_def frame_def common_of_def)

subsection \<open>Memory expansion\<close>

lemma divCeil_32_32: "divCeil 32 32 = Inr 1"
  by (simp add: divCeil_def bigint_div_def mod_util_def bigint_rem_def)

text \<open>
  What the early return of \<open>subMemUsage\<close> does: a word count at or above the current
  one leaves the run state as it is.
\<close>

lemma subMemUsage_growth_returns:
  assumes "divCeil (offset + length') 32 = Inr n" and "memoryWordCount runState \<le> n"
  shows "subMemUsage runState offset length' common = Inr runState"
  using assms by (simp add: subMemUsage_def)

text \<open>
  A call that returns has returned early, on line 189 or 192: a call that gets past the
  two returns throws on line 198.  So a call that returns leaves the run state as it was.
\<close>

lemma subMemUsage_returns_unchanged:
  assumes "subMemUsage runState offset length' common = Inr runState'"
  shows "runState' = runState"
  using assms
  by (auto simp: subMemUsage_def Let_def bigint_method_mul_def split: if_splits sum.splits)

lemma subMemUsage_all_append:
  "subMemUsage_all runState (calls @ calls') common =
     (case subMemUsage_all runState calls common of
        Inl e \<Rightarrow> Inl e
      | Inr runState' \<Rightarrow> subMemUsage_all runState' calls' common)"
proof (induction calls arbitrary: runState)
  case Nil
  show ?case by simp
next
  case (Cons c calls)
  obtain offset length' where c: "c = (offset, length')" by (cases c)
  show ?case by (simp add: c Cons.IH split: sum.splits)
qed

lemma divCeil_96_32: "divCeil 96 32 = Inr 3"
  by (simp add: divCeil_def bigint_div_def mod_util_def bigint_rem_def)

text \<open>
  Claim C1.  An access beyond the current word count is claimed to be charged.  The
  code returns early on \<open>newMemoryWordCount \<ge> memoryWordCount\<close>: growing a fresh
  frame to one word (offset 0, length 32, prices 3 and 512) costs nothing and leaves
  gas, highest cost and word count unchanged, where the claim has 3 gas deducted and
  the word count set to 1.
\<close>

theorem subMemUsage_growth_not_charged:
  "subMemUsage (frame 100 0 0) 0 32 (common_of True) = Inr (frame 100 0 0)"
  by (simp add: subMemUsage_def divCeil_32_32 frame_def)

text \<open>
  Claim C2.  Over any finite sequence of calls of \<open>subMemUsage\<close> on one frame, the
  fields \<open>memoryWordCount\<close> and \<open>highestMemCost\<close> never decrease: at each call of the
  sequence, each field is after the call greater than or equal to its value before the
  call.  (The two fields are written on lines 202 and 205 only, after everything that
  can throw: a call that throws ends the sequence and has not written them.)
\<close>

theorem subMemUsage_fields_nondecreasing:
  assumes "subMemUsage_all runState (before @ (offset, length') # rest) common = Inr final"
  shows "\<exists>s s'. subMemUsage_all runState before common = Inr s \<and>
                subMemUsage s offset length' common = Inr s' \<and>
                memoryWordCount s \<le> memoryWordCount s' \<and>
                highestMemCost s \<le> highestMemCost s'"
proof -
  from assms obtain s where
    s: "subMemUsage_all runState before common = Inr s" and
    tail: "subMemUsage_all s ((offset, length') # rest) common = Inr final"
    by (auto simp: subMemUsage_all_append split: sum.splits)
  from tail obtain s' where s': "subMemUsage s offset length' common = Inr s'"
    by (auto split: sum.splits)
  from subMemUsage_returns_unchanged [OF s'] have "s' = s" .
  with s s' show ?thesis by auto
qed

theorem subMemUsage_fields_nondecreasing_witness:
  "subMemUsage_all (frame 100 0 0) ([(0, 32)] @ (64, 32) # [(0, 0)]) (common_of True)
     = Inr (frame 100 0 0) \<and>
   subMemUsage (frame 100 0 0) 64 32 (common_of True) = Inr (frame 100 0 0)"
proof -
  have run: "subMemUsage_all (frame 100 0 0) ([(0, 32)] @ (64, 32) # [(0, 0)]) (common_of True)
     = Inr (frame 100 0 0)"
    by (simp add: subMemUsage_def divCeil_32_32 divCeil_96_32 frame_def)
  from subMemUsage_fields_nondecreasing [OF run] obtain s s' where
    s: "subMemUsage_all (frame 100 0 0) [(0, 32)] (common_of True) = Inr s" and
    s': "subMemUsage s 64 32 (common_of True) = Inr s'"
    by blast
  have "subMemUsage_all (frame 100 0 0) [(0, 32)] (common_of True) = Inr (frame 100 0 0)"
    by (simp add: subMemUsage_def divCeil_32_32 frame_def)
  with s have "s = frame 100 0 0" by simp
  with s' subMemUsage_returns_unchanged [OF s'] run show ?thesis by simp
qed

subsection \<open>Call output\<close>

text \<open>
  Claim C10, as amended.  With empty return data \<open>writeCallOutput\<close> leaves the run
  state, and so the memory, untouched for any offset and length.  Otherwise, for an
  offset and a length within the 53 bits of a number (and a length that is not
  negative), it extends the memory by, and writes,
  \<open>min(outLength, length of the return data)\<close> bytes at the offset: the first bytes of
  the return data, without padding.  For an offset or a length of \<open>2^53\<close> or more it
  throws before the memory is touched.
\<close>

theorem writeCallOutput_effect:
  "(returnData (eei runState) = [] \<longrightarrow>
      writeCallOutput Mem runState outOffset outLength = Inr runState) \<and>
   (returnData (eei runState) \<noteq> [] \<and> \<bar>outOffset\<bar> < 2 ^ 53 \<and>
    0 \<le> outLength \<and> outLength < 2 ^ 53 \<and>
    int (length (returnData (eei runState))) < 2 ^ 53 \<longrightarrow>
      (let n = min outLength (int (length (returnData (eei runState))));
           data = take (nat n) (returnData (eei runState))
       in length data = nat n \<and>
          writeCallOutput Mem runState outOffset outLength =
            Inr (runState\<lparr>memory :=
              mem_write Mem (mem_extend Mem (memory runState) outOffset n) outOffset n data\<rparr>))) \<and>
   (returnData (eei runState) \<noteq> [] \<and> (2 ^ 53 \<le> \<bar>outOffset\<bar> \<or> 2 ^ 53 \<le> \<bar>outLength\<bar>) \<longrightarrow>
      writeCallOutput Mem runState outOffset outLength = Inl AssertionError)"
proof -
  let ?rd = "returnData (eei runState)"
  have empty: "?rd = [] \<Longrightarrow> writeCallOutput Mem runState outOffset outLength = Inr runState"
    by (simp add: writeCallOutput_def)
  have throws: "writeCallOutput Mem runState outOffset outLength = Inl AssertionError"
    if "?rd \<noteq> []" "2 ^ 53 \<le> \<bar>outOffset\<bar> \<or> 2 ^ 53 \<le> \<bar>outLength\<bar>"
    using that by (auto simp: writeCallOutput_def BN_toNumber_def split: sum.splits)
  have full: "length (take (nat n) ?rd) = nat n \<and> getDataSlice ?rd 0 n = Inr (take (nat n) ?rd)"
    if "0 \<le> n" "n \<le> int (length ?rd)" "int (length ?rd) < 2 ^ 53" for n
  proof -
    from that have le: "nat n \<le> length ?rd" by linarith
    then have "length (take (nat n) ?rd) = nat n" by simp
    moreover from that have "n < 2 ^ 53" by linarith
    with that have "getDataSlice ?rd 0 n =
        Inr (take (nat n) (drop (nat 0) ?rd) @
             replicate (nat n - length (take (nat n) (drop (nat 0) ?rd))) 0)"
      by (intro getDataSlice_eq) simp_all
    ultimately show ?thesis by simp
  qed
  {
    assume ne: "?rd \<noteq> []" and off: "\<bar>outOffset\<bar> < 2 ^ 53"
      and len: "0 \<le> outLength" "outLength < 2 ^ 53"
      and rd: "int (length ?rd) < 2 ^ 53"
    let ?n = "min outLength (int (length ?rd))"
    have n: "0 \<le> ?n" "?n \<le> int (length ?rd)" using len by simp_all
    have dl: "(if int (length ?rd) < outLength then int (length ?rd) else outLength) = ?n"
      by (simp add: min_def)
    have o: "BN_toNumber outOffset = Inr outOffset" using off by (simp add: BN_toNumber_def)
    have l: "BN_toNumber outLength = Inr outLength" using len by (simp add: BN_toNumber_fits)
    note f = full [OF n rd]
    have "writeCallOutput Mem runState outOffset outLength =
            Inr (runState\<lparr>memory :=
              mem_write Mem (mem_extend Mem (memory runState) outOffset ?n) outOffset ?n
                (take (nat ?n) ?rd)\<rparr>)"
      using ne by (simp add: writeCallOutput_def Let_def dl o l f)
    with f have
      "length (take (nat ?n) ?rd) = nat ?n \<and>
       writeCallOutput Mem runState outOffset outLength =
            Inr (runState\<lparr>memory :=
              mem_write Mem (mem_extend Mem (memory runState) outOffset ?n) outOffset ?n
                (take (nat ?n) ?rd)\<rparr>)"
      by simp
  }
  with empty throws show ?thesis by (simp add: Let_def)
qed

theorem writeCallOutput_effect_witness:
  "writeCallOutput callLog (returned []) 64 32 = Inr (returned []) \<and>
   writeCallOutput callLog (returned [1, 2, 3]) 64 32 =
     Inr ((returned [1, 2, 3])\<lparr>memory := [Extend 64 3, Write 64 3 [1, 2, 3]]\<rparr>) \<and>
   writeCallOutput callLog (returned [1, 2, 3]) 64 2 =
     Inr ((returned [1, 2, 3])\<lparr>memory := [Extend 64 2, Write 64 2 [1, 2]]\<rparr>) \<and>
   writeCallOutput callLog (returned [1, 2, 3]) (2 ^ 53) 0 = Inl AssertionError"
  using writeCallOutput_effect [of "returned []" callLog 64 32]
        writeCallOutput_effect [of "returned [1, 2, 3]" callLog 64 32]
        writeCallOutput_effect [of "returned [1, 2, 3]" callLog 64 2]
        writeCallOutput_effect [of "returned [1, 2, 3]" callLog "2 ^ 53" 0]
  by (simp add: returned_def callLog_def Let_def numeral_2_eq_2 numeral_3_eq_3)

text \<open>
  The claim as stated, for every call, fails on a length from \<open>2^53\<close> on: with three
  bytes of return data the claim has three bytes written, and the call throws.
\<close>

theorem writeCallOutput_effect_counterexample:
  "min (2 ^ 53) (int (length [1, 2, 3 :: byte])) = 3 \<and>
   writeCallOutput callLog (returned [1, 2, 3]) 0 (2 ^ 53) = Inl AssertionError"
  by (simp add: writeCallOutput_def returned_def BN_toNumber_def)


end
